theory Spec2Isabelle
  imports Main "HOL-Library.Sublist"
begin

section \<open>Strings and numbers of the source language\<close>

text \<open>
  The repository is TypeScript. A source string is modelled as \<^typ>\<open>string\<close>, one
  \<^typ>\<open>char\<close> per code unit, so \<open>length\<close> is the source's \<open>.length\<close>. Every literal
  of the source is ASCII. A \<open>number\<close> that the source uses as a length or a limit is
  an \<^typ>\<open>int\<close>; \<open>content.length\<close> is a \<^typ>\<open>nat\<close>.
\<close>

definition digit_char :: "nat \<Rightarrow> char" where
  "digit_char d = ''0123456789'' ! d"

text \<open>Decimal rendering of a number interpolated into a template literal.\<close>

function string_of_nat :: "nat \<Rightarrow> string" where
  "string_of_nat n =
     (if n < 10 then [digit_char n]
      else string_of_nat (n div 10) @ [digit_char (n mod 10)])"
  by pat_completeness auto
termination
  by (relation "measure id") auto

declare string_of_nat.simps [simp del]

definition string_of_int :: "int \<Rightarrow> string" where
  "string_of_int i =
     (if i < 0 then CHR ''-'' # string_of_nat (nat (- i)) else string_of_nat (nat i))"

text \<open>
  \<open>s.slice(0, e)\<close>: a negative end counts from the end of the string, and the
  result is clamped to the string.
\<close>

definition js_slice0 :: "string \<Rightarrow> int \<Rightarrow> string" where
  "js_slice0 s e =
     take (nat (if e < 0 then max (int (length s) + e) 0 else min e (int (length s)))) s"

section \<open>Content Preparer (lib/epsUtils)\<close>

text \<open>
  The text that \<open>truncateContent\<close> appends after the kept part of the content: the
  template literal from \<open>...\<close> on, with the original length and the limit
  interpolated.
\<close>

definition truncation_notice :: "nat \<Rightarrow> int \<Rightarrow> string" where
  "truncation_notice original maxLength =
     ''...\<newline>[Content truncated: Original length '' @ string_of_nat original @
     '' exceeds limit of '' @ string_of_int maxLength @
     '' characters. Please use a smaller input or a larger model.]''"

text \<open>
  \<open>truncateContent(content, maxLength = 50000)\<close>. The second argument is optional:
  \<open>None\<close> is a call without it, for which the default of the signature applies. This
  is the current revision of the file; the earlier one differs in the default, 10000,
  and in the wording of the prompt.
\<close>

definition truncateContent :: "string \<Rightarrow> int option \<Rightarrow> string" where
  "truncateContent content arg =
     (let maxLength = (case arg of None \<Rightarrow> 50000 | Some m \<Rightarrow> m) in
      if int (length content) \<le> maxLength then content
      else js_slice0 content (maxLength - 100) @
           truncation_notice (length content) maxLength)"

text \<open>The last line of the validation prompt, after the final line break.\<close>

definition user_instruction :: string where
  "user_instruction = ''User: Validate the test case against the EPS log now.''"

text \<open>\<open>buildEpsValidationPrompt(epsLogContent, testCaseContent)\<close>: one template literal.\<close>

definition buildEpsValidationPrompt :: "string \<Rightarrow> string \<Rightarrow> string" where
  "buildEpsValidationPrompt epsLogContent testCaseContent =
     ''System: You are an EPS log validator. Parse and analyze the raw EPS log content: ['' @
     epsLogContent @
     '']. Validate it against this test case: ['' @
     testCaseContent @
     '']. For each test case step, verify the action in the log and cite specific log entries (e.g., timestamps, request IDs, service responses) as evidence. Output in this format: \<newline>Overall Result: PASS or FAIL\<newline>Reasoning and Evidence:\<newline>- Step 1: [Action and verification details with specific log excerpts]\<newline>- Step 2: [Details]\<newline>...\<newline>If the log or test case is malformed, note the issue but attempt validation. If no relevant log entries are found, indicate this explicitly.\<newline>'' @
     user_instruction"

section \<open>Test-case detection (pages/ChatPage, components/chat/ChatInterface)\<close>

text \<open>
  The detection predicate is the regular expression
  \<^verbatim>\<open>/{TestCaseID|StepNo\b|<StepNo/i\<close> applied with \<open>test\<close>. With the flag \<open>i\<close> (and
  without \<open>u\<close>) two characters match when their upper-case forms agree, and a
  character outside ASCII never folds to an ASCII one; every character of the pattern
  is ASCII, so folding the ASCII letters decides every comparison the matcher makes.
\<close>

definition canonicalize :: "char \<Rightarrow> char" where
  "canonicalize c =
     (case map_of (zip ''abcdefghijklmnopqrstuvwxyz'' ''ABCDEFGHIJKLMNOPQRSTUVWXYZ'') c of
        None \<Rightarrow> c
      | Some u \<Rightarrow> u)"

text \<open>The class \<open>\w\<close>: letters, digits and the underscore.\<close>

definition is_word_char :: "char \<Rightarrow> bool" where
  "is_word_char c =
     (c \<in> set ''ABCDEFGHIJKLMNOPQRSTUVWXYZabcdefghijklmnopqrstuvwxyz0123456789_'')"

text \<open>
  Matching a literal at the start of the input, ignoring case: the matched text and
  the rest of the input, or \<open>None\<close>.
\<close>

fun match_literal :: "string \<Rightarrow> string \<Rightarrow> (string \<times> string) option" where
  "match_literal [] s = Some ([], s)"
| "match_literal (p # ps) [] = None"
| "match_literal (p # ps) (c # cs) =
     (if canonicalize p = canonicalize c
      then (case match_literal ps cs of None \<Rightarrow> None | Some (m, rest) \<Rightarrow> Some (c # m, rest))
      else None)"

definition is_word_at :: "char option \<Rightarrow> bool" where
  "is_word_at x = (case x of None \<Rightarrow> False | Some c \<Rightarrow> is_word_char c)"

text \<open>
  The assertion \<open>\b\<close> between two neighbouring positions: exactly one side is a word
  character; the start and the end of the input count as no word character.
\<close>

definition word_boundary :: "char option \<Rightarrow> char option \<Rightarrow> bool" where
  "word_boundary before after = (is_word_at before \<noteq> is_word_at after)"

definition first_char :: "string \<Rightarrow> char option" where
  "first_char s = (case s of [] \<Rightarrow> None | c # _ \<Rightarrow> Some c)"

text \<open>The three alternatives of the pattern, tried at the start of the input.\<close>

definition match_here :: "string \<Rightarrow> bool" where
  "match_here s =
     (match_literal ''{TestCaseID'' s \<noteq> None \<or>
      (case match_literal ''StepNo'' s of
         None \<Rightarrow> False
       | Some (m, rest) \<Rightarrow> word_boundary (Some (last m)) (first_char rest)) \<or>
      match_literal ''<StepNo'' s \<noteq> None)"

text \<open>\<open>test\<close> tries every start position, from the first to the end of the input.\<close>

fun regex_test :: "string \<Rightarrow> bool" where
  "regex_test [] = match_here []"
| "regex_test (c # cs) = (match_here (c # cs) \<or> regex_test cs)"

definition isTestCase :: "string \<Rightarrow> bool" where
  "isTestCase messageContent = regex_test messageContent"

text \<open>Two texts that agree up to the case of their ASCII letters.\<close>

definition ci_eq :: "string \<Rightarrow> string \<Rightarrow> bool" where
  "ci_eq a b = (map canonicalize a = map canonicalize b)"

section \<open>Values of the source language at run time\<close>

text \<open>
  A parsed JSON body is any value of the language, and the code reads it with
  optional chaining and \<open>||\<close>. Numbers matter only through their truthiness; the
  payload is an integer.
\<close>

datatype jsval =
    Undefined
  | JNull
  | JBool bool
  | JNum int
  | JStr string
  | JArr "jsval list"
  | JObj "(string \<times> jsval) list"

fun truthy :: "jsval \<Rightarrow> bool" where
  "truthy Undefined = False"
| "truthy JNull = False"
| "truthy (JBool b) = b"
| "truthy (JNum n) = (n \<noteq> 0)"
| "truthy (JStr s) = (s \<noteq> [])"
| "truthy (JArr vs) = True"
| "truthy (JObj kvs) = True"

text \<open>\<open>a || b\<close>.\<close>

definition js_or :: "jsval \<Rightarrow> jsval \<Rightarrow> jsval" where
  "js_or a b = (if truthy a then a else b)"

text \<open>
  \<open>v?.k\<close> for the keys the code reads (\<open>message\<close>, \<open>content\<close>, \<open>choices\<close>): the
  property of an object, and \<open>undefined\<close> for \<open>null\<close>, \<open>undefined\<close>, and for a
  primitive or an array, whose prototypes have none of these keys.
\<close>

fun opt_get :: "jsval \<Rightarrow> string \<Rightarrow> jsval" where
  "opt_get (JObj kvs) k = (case map_of kvs k of None \<Rightarrow> Undefined | Some v \<Rightarrow> v)"
| "opt_get v k = Undefined"

text \<open>\<open>v?.[0]\<close>: the first element of an array, the first character of a string.\<close>

fun opt_index0 :: "jsval \<Rightarrow> jsval" where
  "opt_index0 (JArr (v # vs)) = v"
| "opt_index0 (JStr (c # cs)) = JStr [c]"
| "opt_index0 (JObj kvs) = (case map_of kvs ''0'' of None \<Rightarrow> Undefined | Some v \<Rightarrow> v)"
| "opt_index0 v = Undefined"

text \<open>
  A thrown value: an \<open>Error\<close> with its message, or anything else. The handlers read
  it as \<open>error instanceof Error ? error.message : 'Unknown error'\<close>.
\<close>

datatype thrown = ErrorObj string | NonError

definition error_message :: "thrown \<Rightarrow> string" where
  "error_message e = (case e of ErrorObj m \<Rightarrow> m | NonError \<Rightarrow> ''Unknown error'')"

section \<open>Model Client (api/chat, the route of the mock, callChatAPI of pages/ChatPage)\<close>

text \<open>
  The request that every variant posts: the fixed address and model, one user message
  with the prompt, no streaming.
\<close>

record http_request =
  url :: string
  model :: string
  user_content :: jsval
  stream :: bool

definition ollama_request :: "jsval \<Rightarrow> http_request" where
  "ollama_request c =
     \<lparr>url = ''http://localhost:11434/api/chat'', model = ''gemma3:1b'',
      user_content = c, stream = False\<rparr>"

text \<open>
  What \<open>fetch\<close> gives back: the promise rejects (a failure of the network), or it
  fulfils with a response. Reading the body of a response as text or as JSON is a
  second await that can reject.
\<close>

record response =
  status :: nat
  text_body :: "thrown + string"
  json_body :: "thrown + jsval"

datatype fetch_outcome = Rejected thrown | Fulfilled response

text \<open>\<open>response.ok\<close>: the status is in the range 200 to 299.\<close>

definition ok :: "response \<Rightarrow> bool" where
  "ok r = (200 \<le> status r \<and> status r \<le> 299)"

definition http_error :: "response \<Rightarrow> thrown" where
  "http_error r = ErrorObj (''HTTP error! status: '' @ string_of_nat (status r))"

record ChatRequest =
  message :: string
  req_epsLogContent :: "string option"
  req_testCaseContent :: "string option"

record ChatResponse =
  reply :: string
  error :: "string option"

text \<open>
  The prompt (lines 32 to 39 of api/chat, and the same lines of callChatAPI): the
  message, unless both contents are truthy, that is given and not empty.
\<close>

definition build_prompt :: "string \<Rightarrow> string option \<Rightarrow> string option \<Rightarrow> string" where
  "build_prompt msg epsLog testCase =
     (case epsLog of
        None \<Rightarrow> msg
      | Some l \<Rightarrow>
          (case testCase of
             None \<Rightarrow> msg
           | Some t \<Rightarrow>
               if l \<noteq> [] \<and> t \<noteq> []
               then buildEpsValidationPrompt (truncateContent l None) (truncateContent t None)
               else msg))"

text \<open>\<open>data?.message?.content || data?.content || "No reply from model"\<close>.\<close>

definition extract_reply :: "jsval \<Rightarrow> jsval" where
  "extract_reply data =
     js_or (opt_get (opt_get data ''message'') ''content'')
       (js_or (opt_get data ''content'') (JStr ''No reply from model''))"

text \<open>The reply with which \<open>sendChatMessage\<close> answers whatever its \<open>try\<close> block throws.\<close>

definition failure_response :: "thrown \<Rightarrow> ChatResponse" where
  "failure_response e =
     \<lparr>reply = ''Sorry, I cannot connect to the local AI service. Please ensure Ollama is running on localhost:11434 and the model is loaded.'',
      error = Some (error_message e)\<rparr>"

text \<open>
  The log call after the reply is extracted reads \<open>reply.substring\<close> and
  \<open>data.error\<close>: the first throws a \<open>TypeError\<close> when the reply is not a string, the
  second when the data is \<open>null\<close>. The messages are those of V8.
\<close>

definition log_response :: "jsval \<Rightarrow> jsval \<Rightarrow> thrown + string" where
  "log_response data r =
     (case r of
        JStr s \<Rightarrow>
          if data = JNull \<or> data = Undefined
          then Inl (ErrorObj ''Cannot read properties of null (reading 'error')'')
          else Inr s
      | _ \<Rightarrow> Inl (ErrorObj ''reply.substring is not a function''))"

text \<open>The request that \<open>sendChatMessage\<close> posts for a \<open>ChatRequest\<close>.\<close>

definition request_for :: "ChatRequest \<Rightarrow> http_request" where
  "request_for req =
     ollama_request
       (JStr (build_prompt (message req) (req_epsLogContent req) (req_testCaseContent req)))"

text \<open>
  The \<open>try\<close> block of \<open>sendChatMessage\<close> once \<open>fetch\<close> has settled: \<open>Inl\<close> is what the
  block throws (a rejected \<open>fetch\<close>, the \<open>Error\<close> built from the status, a body that
  cannot be read, the log call), \<open>Inr\<close> is what it returns.
\<close>

definition sendChatMessage_try :: "fetch_outcome \<Rightarrow> thrown + ChatResponse" where
  "sendChatMessage_try outcome =
     (case outcome of
        Rejected e \<Rightarrow> Inl e
      | Fulfilled r \<Rightarrow>
          if \<not> ok r then
            (case text_body r of
               Inl e \<Rightarrow> Inl e
             | Inr errorText \<Rightarrow> Inl (http_error r))
          else
            (case json_body r of
               Inl e \<Rightarrow> Inl e
             | Inr data \<Rightarrow>
                 (case log_response data (extract_reply data) of
                    Inl e \<Rightarrow> Inl e
                  | Inr s \<Rightarrow> Inr \<lparr>reply = s, error = None\<rparr>)))"

text \<open>
  \<open>sendChatMessage\<close> of api/chat, given the network as a function from the request to
  the outcome of \<open>fetch\<close>. The function is \<open>async\<close>: its result is a promise, which
  rejects with a thrown value (\<open>Inl\<close>) or resolves to a response (\<open>Inr\<close>). The
  \<open>catch\<close> clause returns the failure response for whatever the \<open>try\<close> block throws.
  The second component is the list of the requests the call has posted.
\<close>

definition sendChatMessage ::
  "ChatRequest \<Rightarrow> (http_request \<Rightarrow> fetch_outcome) \<Rightarrow>
   (thrown + ChatResponse) \<times> http_request list" where
  "sendChatMessage req net =
     (let rq = request_for req
      in ((case sendChatMessage_try (net rq) of
             Inl e \<Rightarrow> Inr (failure_response e)
           | Inr response \<Rightarrow> Inr response),
          [rq]))"

text \<open>
  \<open>callChatAPI\<close> of pages/ChatPage after its \<open>fetch\<close> has settled: it rethrows what
  it catches. The \<open>stateUpdate\<close> field of its result echoes the mode and is only
  logged; the result here is the \<open>chatResponse\<close>.
\<close>

definition callChatAPI_result :: "fetch_outcome \<Rightarrow> thrown + jsval" where
  "callChatAPI_result outcome =
     (case outcome of
        Rejected e \<Rightarrow> Inl e
      | Fulfilled r \<Rightarrow>
          if \<not> ok r then Inl (http_error r)
          else (case json_body r of Inl e \<Rightarrow> Inl e | Inr data \<Rightarrow> Inr (extract_reply data)))"

definition callChatAPI ::
  "string \<Rightarrow> string option \<Rightarrow> string option \<Rightarrow> (http_request \<Rightarrow> fetch_outcome) \<Rightarrow>
   (thrown + jsval) \<times> http_request list" where
  "callChatAPI msg epsLog testCase net =
     (let rq = ollama_request (JStr (build_prompt msg epsLog testCase))
      in (callChatAPI_result (net rq), [rq]))"

text \<open>
  The route of the mock. Its result is a response with a status and a JSON body,
  here the value before \<open>JSON.stringify\<close>. It destructures the body of its request,
  which throws for \<open>null\<close>, does not test \<open>response.ok\<close>, and answers whatever it
  catches with status 500.
\<close>

record route_response =
  route_status :: nat
  route_body :: jsval

definition extract_reply_mock :: "jsval \<Rightarrow> jsval" where
  "extract_reply_mock data =
     js_or (opt_get (opt_get data ''message'') ''content'')
       (js_or (opt_get data ''content'')
          (js_or (opt_get (opt_get (opt_index0 (opt_get data ''choices'')) ''message'') ''content'')
             (JStr ''No reply from model'')))"

definition route_failure :: route_response where
  "route_failure =
     \<lparr>route_status = 500, route_body = JObj [(''error'', JStr ''Failed to connect to Ollama'')]\<rparr>"

definition POST ::
  "thrown + jsval \<Rightarrow> (http_request \<Rightarrow> fetch_outcome) \<Rightarrow> route_response \<times> http_request list" where
  "POST req_json net =
     (case req_json of
        Inl e \<Rightarrow> (route_failure, [])
      | Inr body \<Rightarrow>
          if body = JNull \<or> body = Undefined then (route_failure, [])
          else
            (let rq = ollama_request (opt_get body ''message'') in
             ((case net rq of
                 Rejected e \<Rightarrow> route_failure
               | Fulfilled r \<Rightarrow>
                   (case json_body r of
                      Inl e \<Rightarrow> route_failure
                    | Inr data \<Rightarrow>
                        \<lparr>route_status = 200,
                         route_body = JObj [(''reply'', extract_reply_mock data)]\<rparr>)),
              [rq])))"

section \<open>Session state and Orchestrator (pages/ChatPage)\<close>

datatype AppState = CHATTING | TASK_MODE | TASKS_COMPLETED

datatype role = User | Assistant

text \<open>
  An identifier comes from \<open>generateId\<close> (the clock and a random number) and a
  timestamp from \<open>new Date()\<close>: both are given by the environment, so every handler
  takes the values it reads as arguments. A timestamp is a number of milliseconds.
\<close>

type_synonym ident = string
type_synonym time = nat
type_synonym stamp = "ident \<times> time"

text \<open>
  The content of a message and the justification of a task are typed \<open>string\<close> in the
  source, and hold the reply of the model as it was extracted, whatever its type.
\<close>

record ChatMessage =
  msg_id :: ident
  role :: role
  content :: jsval
  timestamp :: time

record Task =
  task_id :: ident
  description :: string
  completed :: bool
  justification :: "jsval option"
  completedAt :: "time option"
  task_epsLogContent :: "string option"
  task_testCaseContent :: "string option"

record EpsConfirmationData =
  pathToFile :: string
  epsLogContent :: string
  testCaseContent :: string
  tasksToBeDone :: "string list option"
  conf_timestamp :: time

text \<open>
  A handler that awaits \<open>callChatAPI\<close> stops there, and goes on when the request has
  settled; other handlers can run in between. What is suspended: the rest of
  \<open>handleSendMessage\<close>, or the rest of \<open>processEpsValidation\<close> with the task it was
  called with.
\<close>

datatype continuation = AwaitChat | AwaitValidation Task

text \<open>
  The state of the component (the eight \<open>useState\<close> cells) and of its run time: the
  requests posted so far and the handlers suspended on a request.
\<close>

record session =
  appState :: AppState
  messages :: "ChatMessage list"
  tasks :: "Task list"
  completedTasksCount :: nat
  currentFile :: string
  isLoading :: bool
  showConfirmation :: bool
  completionTimestamp :: time
  requests :: "http_request list"
  pending :: "continuation list"

definition initial :: "time \<Rightarrow> session" where
  "initial now =
     \<lparr>appState = CHATTING, messages = [], tasks = [], completedTasksCount = 0,
      currentFile = [], isLoading = False, showConfirmation = False,
      completionTimestamp = now, requests = [], pending = []\<rparr>"

definition addMessage :: "stamp \<Rightarrow> role \<Rightarrow> jsval \<Rightarrow> session \<Rightarrow> session" where
  "addMessage st r c s =
     s\<lparr>messages := messages s @
          [\<lparr>msg_id = fst st, role = r, content = c, timestamp = snd st\<rparr>]\<rparr>"

text \<open>
  \<open>callChatAPI\<close> up to its \<open>await fetch\<close>: the request is posted, and the caller is
  suspended on it.
\<close>

definition post_request ::
  "string \<Rightarrow> string option \<Rightarrow> string option \<Rightarrow> continuation \<Rightarrow> session \<Rightarrow> session" where
  "post_request msg epsLog testCase k s =
     s\<lparr>requests := requests s @ [ollama_request (JStr (build_prompt msg epsLog testCase))],
       pending := pending s @ [k]\<rparr>"

text \<open>\<open>handleSendMessage\<close>, up to its await.\<close>

definition handleSendMessage :: "stamp \<Rightarrow> stamp \<Rightarrow> string \<Rightarrow> session \<Rightarrow> session" where
  "handleSendMessage st1 st2 messageContent s =
     (if isLoading s then s
      else if isTestCase messageContent then
        (addMessage st2 Assistant
           (JStr ''Test case detected. Please upload the corresponding EPS log file to proceed with validation.'')
           (addMessage st1 User (JStr messageContent) s))
        \<lparr>showConfirmation := True\<rparr>
      else
        post_request messageContent None None AwaitChat
          ((addMessage st1 User (JStr messageContent) s)\<lparr>isLoading := True\<rparr>))"

text \<open>The rest of \<open>handleSendMessage\<close>, once the request has settled.\<close>

definition handleSendMessage_resume :: "fetch_outcome \<Rightarrow> stamp \<Rightarrow> session \<Rightarrow> session" where
  "handleSendMessage_resume outcome st s =
     (case callChatAPI_result outcome of
        Inr r \<Rightarrow> addMessage st Assistant r s
      | Inl e \<Rightarrow>
          addMessage st Assistant
            (JStr ''Sorry, I encountered an error processing your message. Please try again.'') s)
     \<lparr>isLoading := False\<rparr>"

text \<open>\<open>processEpsValidation\<close>, up to its await.\<close>

definition processEpsValidation :: "Task \<Rightarrow> session \<Rightarrow> session" where
  "processEpsValidation task s =
     post_request [] (task_epsLogContent task) (task_testCaseContent task)
       (AwaitValidation task) (s\<lparr>isLoading := True\<rparr>)"

text \<open>
  The rest of \<open>processEpsValidation\<close>: the \<open>try\<close> branch on a reply, the \<open>catch\<close>
  branch on a thrown value, and \<open>finally\<close>. The two times are those of the two calls
  of \<open>new Date()\<close>.
\<close>

definition complete_task :: "ident \<Rightarrow> jsval \<Rightarrow> time \<Rightarrow> Task \<Rightarrow> Task" where
  "complete_task i j now t =
     (if task_id t = i
      then t\<lparr>completed := True, justification := Some j, completedAt := Some now\<rparr>
      else t)"

definition processEpsValidation_resume ::
  "Task \<Rightarrow> fetch_outcome \<Rightarrow> stamp \<Rightarrow> time \<Rightarrow> time \<Rightarrow> session \<Rightarrow> session" where
  "processEpsValidation_resume task outcome st now1 now2 s =
     (case callChatAPI_result outcome of
        Inr r \<Rightarrow>
          addMessage st Assistant r
            (s\<lparr>tasks := map (complete_task (task_id task) r now1) (tasks s),
               completedTasksCount := 1,
               appState := TASKS_COMPLETED,
               completionTimestamp := now2\<rparr>)
      | Inl e \<Rightarrow>
          addMessage st Assistant
            (JStr ''Sorry, validation failed. Please check the log file and test case format.'')
            (s\<lparr>tasks := map (complete_task (task_id task)
                              (JStr (''Validation failed: '' @ error_message e)) now1) (tasks s),
               completedTasksCount := 1,
               appState := TASKS_COMPLETED\<rparr>))
     \<lparr>isLoading := False\<rparr>"

text \<open>\<open>handleFileConfirmation\<close>, up to the await inside \<open>processEpsValidation\<close>.\<close>

definition handleFileConfirmation ::
  "ident \<Rightarrow> stamp \<Rightarrow> EpsConfirmationData \<Rightarrow> session \<Rightarrow> session" where
  "handleFileConfirmation new_id st data s =
     (let validationTask =
            \<lparr>task_id = new_id, description = ''Validate test case against EPS log'',
             completed = False, justification = None, completedAt = None,
             task_epsLogContent = Some (epsLogContent data),
             task_testCaseContent = Some (testCaseContent data)\<rparr>
      in processEpsValidation validationTask
           (addMessage st Assistant
              (JStr (''EPS log \"'' @ pathToFile data @
                     ''\" and test case received. Initiating validation...''))
              (s\<lparr>currentFile := pathToFile data,
                 showConfirmation := False,
                 appState := TASK_MODE,
                 tasks := [validationTask],
                 completedTasksCount := 0\<rparr>)))"

definition handleSidebarNavigation :: "string \<Rightarrow> stamp \<Rightarrow> session \<Rightarrow> session" where
  "handleSidebarNavigation action st s =
     (if action = ''new-task'' then s\<lparr>showConfirmation := True\<rparr>
      else if action = ''history'' then s
      else if action = ''request-feature'' then
        addMessage st Assistant
          (JStr ''I'd be happy to help with feature requests! Please describe what functionality you'd like to see added to the EPS Agent system.'') s
      else if action = ''privacy'' then
        addMessage st Assistant
          (JStr ''Privacy Information: EPS Agent runs entirely on your local machine. All file processing, AI conversations, and data analysis happen locally. No data is sent to external servers, ensuring complete privacy and security of your documents.'') s
      else s)"

definition handleStartNewTask :: "stamp \<Rightarrow> time \<Rightarrow> session \<Rightarrow> session" where
  "handleStartNewTask st now s =
     addMessage st Assistant
       (JStr ''Ready to start a new validation task! Please upload an EPS log file and paste your test case.'')
       (s\<lparr>appState := CHATTING, tasks := [], completedTasksCount := 0,
          currentFile := [], completionTimestamp := now\<rparr>)"

text \<open>
  The events of the component: a call of one of its handlers by the interface, or the
  settling of the request on which the handler at a position of \<open>pending\<close> is
  suspended. Each carries the values the handler reads from the environment.
\<close>

datatype event =
    SendMessage string stamp stamp
  | ConfirmFile EpsConfirmationData ident stamp
  | Navigate string stamp
  | StartNewTask stamp time
  | CancelConfirmation
  | TestCaseDetected
  | Settled nat fetch_outcome stamp time time

fun handle :: "event \<Rightarrow> session \<Rightarrow> session" where
  "handle (SendMessage messageContent st1 st2) s = handleSendMessage st1 st2 messageContent s"
| "handle (ConfirmFile data new_id st) s = handleFileConfirmation new_id st data s"
| "handle (Navigate action st) s = handleSidebarNavigation action st s"
| "handle (StartNewTask st now) s = handleStartNewTask st now s"
| "handle CancelConfirmation s = s\<lparr>showConfirmation := False\<rparr>"
| "handle TestCaseDetected s = s\<lparr>showConfirmation := True\<rparr>"
| "handle (Settled i outcome st now1 now2) s =
     (if i < length (pending s) then
        (let s' = s\<lparr>pending := take i (pending s) @ drop (Suc i) (pending s)\<rparr> in
         case pending s ! i of
           AwaitChat \<Rightarrow> handleSendMessage_resume outcome st s'
         | AwaitValidation task \<Rightarrow> processEpsValidation_resume task outcome st now1 now2 s')
      else s)"

text \<open>
  What the rendered page offers: the confirmation form, with its two buttons, is
  mounted only while \<open>showConfirmation\<close> holds; the button that starts a new task
  belongs to the completion panel, which is rendered only in the mode
  \<open>TASKS_COMPLETED\<close>; a request settles only while a handler is suspended on it.
\<close>

fun enabled :: "session \<Rightarrow> event \<Rightarrow> bool" where
  "enabled s (ConfirmFile data new_id st) = showConfirmation s"
| "enabled s CancelConfirmation = showConfirmation s"
| "enabled s (StartNewTask st now) = (appState s = TASKS_COMPLETED)"
| "enabled s (Settled i outcome st now1 now2) = (i < length (pending s))"
| "enabled s e = True"

fun run :: "session \<Rightarrow> event list \<Rightarrow> session option" where
  "run s [] = Some s"
| "run s (e # es) = (if enabled s e then run (handle e s) es else None)"

text \<open>The invariant of the data model, one clause per mode.\<close>

definition mode_invariant :: "session \<Rightarrow> bool" where
  "mode_invariant s =
     (case appState s of
        CHATTING \<Rightarrow> tasks s = []
      | TASK_MODE \<Rightarrow> tasks s \<noteq> [] \<and> \<not> list_all completed (tasks s)
      | TASKS_COMPLETED \<Rightarrow> tasks s \<noteq> [] \<and> list_all completed (tasks s))"

text \<open>
  A validation is in flight when \<open>processEpsValidation\<close> is suspended on its request;
  these are the tasks of the validations in flight. In a serial run, a file is
  confirmed only while no validation is in flight.
\<close>

fun validation_tasks :: "continuation list \<Rightarrow> Task list" where
  "validation_tasks [] = []"
| "validation_tasks (AwaitValidation task # ks) = task # validation_tasks ks"
| "validation_tasks (AwaitChat # ks) = validation_tasks ks"

fun serial :: "session \<Rightarrow> event list \<Rightarrow> bool" where
  "serial s [] = True"
| "serial s (ConfirmFile data new_id st # es) =
     (validation_tasks (pending s) = [] \<and> serial (handle (ConfirmFile data new_id st) s) es)"
| "serial s (e # es) = serial (handle e s) es"

text \<open>
  What a serial run maintains besides the invariant of the data model: the mode is
  \<open>TASK_MODE\<close> exactly while a validation is in flight, and then the task list is the one
  task of that validation, not yet completed.
\<close>

definition serial_invariant :: "session \<Rightarrow> bool" where
  "serial_invariant s =
     (mode_invariant s \<and>
      (case validation_tasks (pending s) of
         [] \<Rightarrow> appState s \<noteq> TASK_MODE
       | [task] \<Rightarrow> appState s = TASK_MODE \<and> tasks s = [task] \<and> \<not> completed task
       | _ \<Rightarrow> False))"

section \<open>Properties of the Content Preparer\<close>

lemma sublist_appendI1: "sublist xs (ps @ xs @ ss)"
  unfolding sublist_def by blast

lemma js_slice0_nonneg: "0 \<le> e \<Longrightarrow> js_slice0 s e = take (nat e) s"
  by (simp add: js_slice0_def min_def)

lemma sublist_appendI2: "sublist xs (a @ b @ c @ xs @ ss)"
  unfolding sublist_def by (metis append.assoc)


text \<open>
  Claim C4, as the code has it. For every content and every limit,
  \<open>truncateContent\<close> returns the content unchanged when its length is at most the
  limit. When the c is longer than the limit and the limit is at least 100, it
  returns the first \<open>maxLength - 100\<close> characters of the c followed by the notice,
  the length of the result is \<open>maxLength - 100 + length notice\<close>, and the notice
  contains the decimal renderings of the original length and of the limit.
\<close>

theorem truncateContent_spec:
  "(int (length c) \<le> m \<longrightarrow> truncateContent c (Some m) = c) \<and>
   (m < int (length c) \<and> 100 \<le> m \<longrightarrow>
      truncateContent c (Some m) =
        take (nat (m - 100)) c @ truncation_notice (length c) m \<and>
      int (length (truncateContent c (Some m))) =
        m - 100 + int (length (truncation_notice (length c) m)) \<and>
      sublist (string_of_nat (length c)) (truncation_notice (length c) m) \<and>
      sublist (string_of_int m) (truncation_notice (length c) m))"
proof (intro conjI impI)
  assume "int (length c) \<le> m"
  then show "truncateContent c (Some m) = c"
    by (simp add: truncateContent_def)
next
  assume h: "m < int (length c) \<and> 100 \<le> m"
  then have eq: "truncateContent c (Some m) =
        take (nat (m - 100)) c @ truncation_notice (length c) m"
    by (simp add: truncateContent_def js_slice0_nonneg)
  show "truncateContent c (Some m) =
        take (nat (m - 100)) c @ truncation_notice (length c) m"
    by (rule eq)
  from h have le: "nat (m - 100) \<le> length c" by linarith
  have "length (take (nat (m - 100)) c) = nat (m - 100)"
    using le by simp
  with h show "int (length (truncateContent c (Some m))) =
        m - 100 + int (length (truncation_notice (length c) m))"
    unfolding eq by simp
  show "sublist (string_of_nat (length c)) (truncation_notice (length c) m)"
    unfolding truncation_notice_def by (rule sublist_appendI1)
  show "sublist (string_of_int m) (truncation_notice (length c) m)"
    unfolding truncation_notice_def by (rule sublist_appendI2)
qed

theorem truncateContent_spec_witness:
  "truncateContent ''abc'' (Some 3) = ''abc'' \<and>
   truncateContent (replicate 150 (CHR ''a'')) (Some 120) =
     replicate 20 (CHR ''a'') @ truncation_notice 150 120 \<and>
   int (length (truncateContent (replicate 150 (CHR ''a'')) (Some 120))) =
     20 + int (length (truncation_notice 150 120)) \<and>
   sublist (string_of_nat 150) (truncation_notice 150 120) \<and>
   sublist (string_of_int 120) (truncation_notice 150 120)"
  using truncateContent_spec [of "''abc''" 3]
    truncateContent_spec [of "replicate 150 (CHR ''a'')" 120]
  by simp

text \<open>
  Claim C4 as stated fails for a limit below 100: the end index of the slice is then
  negative and counts from the end of the content. With a limit of 99 and a content
  of 102 characters the result keeps 101 characters of the content, not \<open>99 - 100\<close>,
  and its length is not \<open>99 - 100 + length notice\<close>.
\<close>

theorem truncateContent_small_limit_counterexample:
  "99 < int (length (replicate 102 (CHR ''a''))) \<and>
   truncateContent (replicate 102 (CHR ''a'')) (Some 99) =
     replicate 101 (CHR ''a'') @ truncation_notice 102 99 \<and>
   truncateContent (replicate 102 (CHR ''a'')) (Some 99) \<noteq>
     take (nat (99 - 100)) (replicate 102 (CHR ''a'')) @ truncation_notice 102 99 \<and>
   int (length (truncateContent (replicate 102 (CHR ''a'')) (Some 99))) \<noteq>
     99 - 100 + int (length (truncation_notice 102 99))"
  by (simp add: truncateContent_def js_slice0_def)

text \<open>
  Claim C8. A call of \<open>truncateContent\<close> without a limit applies the limit 50000: it is
  the call with the limit 50000, which keeps a c of at most 50000 characters
  and cuts a longer one to its first 49900 characters and the notice naming 50000.
\<close>

theorem truncateContent_default_limit:
  "truncateContent c None = truncateContent c (Some 50000) \<and>
   truncateContent c None =
     (if length c \<le> 50000 then c
      else take 49900 c @ truncation_notice (length c) 50000)"
  by (simp add: truncateContent_def js_slice0_def)


section \<open>Properties of the test-case detection\<close>

lemma match_literal_sound:
  "match_literal p s = Some (m, rest) \<Longrightarrow> s = m @ rest \<and> ci_eq m p"
proof (induction p s arbitrary: m rule: match_literal.induct)
  case (1 s)
  then show ?case by (simp add: ci_eq_def)
next
  case (2 p ps)
  then show ?case by simp
next
  case (3 p ps c cs)
  from "3.prems" have eq: "canonicalize p = canonicalize c"
    by (simp split: if_splits)
  with "3.prems" obtain m' where m': "match_literal ps cs = Some (m', rest)" "m = c # m'"
    by (auto split: option.splits)
  from "3.IH" [OF eq m'(1)] have "cs = m' @ rest" "ci_eq m' ps" by simp_all
  with eq m'(2) show ?case by (simp add: ci_eq_def)
qed

lemma match_literal_complete:
  "ci_eq m p \<Longrightarrow> match_literal p (m @ rest) = Some (m, rest)"
proof (induction p arbitrary: m)
  case Nil
  then show ?case by (simp add: ci_eq_def)
next
  case (Cons p ps)
  then obtain c m' where m: "m = c # m'" "canonicalize c = canonicalize p" "ci_eq m' ps"
    by (cases m) (auto simp: ci_eq_def)
  with Cons.IH [of m'] show ?case by simp
qed

lemma match_literal_matches:
  "match_literal p s \<noteq> None \<longleftrightarrow> (\<exists>m rest. s = m @ rest \<and> ci_eq m p)"
proof
  assume "match_literal p s \<noteq> None"
  then obtain m rest where "match_literal p s = Some (m, rest)" by auto
  then show "\<exists>m rest. s = m @ rest \<and> ci_eq m p"
    using match_literal_sound by blast
next
  assume "\<exists>m rest. s = m @ rest \<and> ci_eq m p"
  then show "match_literal p s \<noteq> None"
    using match_literal_complete by fastforce
qed

lemma canonicalize_word: "canonicalize c = CHR ''O'' \<Longrightarrow> is_word_char c"
  by (auto simp: canonicalize_def is_word_char_def split: if_splits)

lemma canonicalize_idem: "canonicalize (canonicalize c) = canonicalize c"
  by (auto simp: canonicalize_def split: if_splits)

lemma is_word_canonicalize: "is_word_char (canonicalize c) = is_word_char c"
  by (auto simp: canonicalize_def is_word_char_def split: if_splits)

lemma canonicalize_StepNo: "map canonicalize ''StepNo'' = ''STEPNO''"
  by (simp add: canonicalize_def)

lemma ci_eq_StepNo_last:
  assumes "ci_eq m ''StepNo''"
  shows "is_word_char (last m)"
proof -
  from assms have eq: "map canonicalize m = ''STEPNO''"
    by (simp only: ci_eq_def canonicalize_StepNo)
  then have ne: "m \<noteq> []" by auto
  have "canonicalize (last m) = last (map canonicalize m)"
    using ne by (simp add: last_map)
  also have "\<dots> = CHR ''O''" by (simp only: eq) simp
  finally show ?thesis by (rule canonicalize_word)
qed

lemma boundary_after_word:
  "is_word_char c \<Longrightarrow>
   word_boundary (Some c) (first_char rest) \<longleftrightarrow> (rest = [] \<or> \<not> is_word_char (hd rest))"
  by (cases rest) (simp_all add: word_boundary_def is_word_at_def first_char_def)

text \<open>Folding the case of the input changes no step of the matcher.\<close>

lemma match_literal_canon:
  "match_literal p (map canonicalize s) =
     map_option (\<lambda>(m, r). (map canonicalize m, map canonicalize r)) (match_literal p s)"
  by (induction p s rule: match_literal.induct)
    (auto simp: canonicalize_idem split: option.splits)

lemma matches_canon:
  "(match_literal p (map canonicalize s) \<noteq> None) = (match_literal p s \<noteq> None)"
  by (simp add: match_literal_canon)

lemma first_char_canon:
  "is_word_at (first_char (map canonicalize r)) = is_word_at (first_char r)"
  by (cases r) (simp_all add: first_char_def is_word_at_def is_word_canonicalize)

lemma last_canon: "is_word_char (last (map canonicalize m)) = is_word_char (last m)"
  by (cases "m = []") (simp_all add: last_map is_word_canonicalize)

lemma boundary_alt_canon:
  "(case match_literal p (map canonicalize s) of
      None \<Rightarrow> False
    | Some (m, rest) \<Rightarrow> word_boundary (Some (last m)) (first_char rest)) =
   (case match_literal p s of
      None \<Rightarrow> False
    | Some (m, rest) \<Rightarrow> word_boundary (Some (last m)) (first_char rest))"
  by (cases "match_literal p s")
    (auto simp: match_literal_canon word_boundary_def is_word_at_def [of "Some _"]
      first_char_canon last_canon)

lemma match_here_canon: "match_here (map canonicalize s) = match_here s"
  unfolding match_here_def by (simp only: matches_canon boundary_alt_canon)

lemma regex_test_canon: "regex_test (map canonicalize s) = regex_test s"
proof (induction s)
  case Nil
  then show ?case by simp
next
  case (Cons c cs)
  have "match_here (canonicalize c # map canonicalize cs) = match_here (c # cs)"
    using match_here_canon [of "c # cs"] by simp
  with Cons show ?case by simp
qed

text \<open>
  The alternative with the assertion: the literal matches at the start, and what
  follows it is the end of the input or no word character.
\<close>

lemma alt_boundary_iff:
  assumes w: "\<And>m. ci_eq m p \<Longrightarrow> is_word_char (last m)"
  shows "(case match_literal p s of
            None \<Rightarrow> False
          | Some (m, rest) \<Rightarrow> word_boundary (Some (last m)) (first_char rest)) \<longleftrightarrow>
         (\<exists>m rest. s = m @ rest \<and> ci_eq m p \<and> (rest = [] \<or> \<not> is_word_char (hd rest)))"
    (is "?L \<longleftrightarrow> ?R")
proof (cases "match_literal p s")
  case None
  have "\<not> ?R"
  proof
    assume ?R
    then obtain m rest where "s = m @ rest" "ci_eq m p" by blast
    then have "match_literal p s = Some (m, rest)"
      by (simp add: match_literal_complete)
    with None show False by simp
  qed
  moreover have "\<not> ?L" by (simp add: None)
  ultimately show ?thesis by blast
next
  case (Some a)
  obtain m rest where a: "a = (m, rest)" by (cases a)
  have found: "match_literal p s = Some (m, rest)" by (simp add: Some a)
  then have s: "s = m @ rest" and ci: "ci_eq m p"
    using match_literal_sound by blast+
  have L: "?L \<longleftrightarrow> (rest = [] \<or> \<not> is_word_char (hd rest))"
    by (simp add: found boundary_after_word [OF w [OF ci]])
  show ?thesis
  proof
    assume ?L
    with L s ci show ?R by blast
  next
    assume ?R
    then obtain m' rest' where r: "s = m' @ rest'" "ci_eq m' p"
      "rest' = [] \<or> \<not> is_word_char (hd rest')" by blast
    from r(2) have "match_literal p (m' @ rest') = Some (m', rest')"
      by (rule match_literal_complete)
    with r(1) found have "rest' = rest" by simp
    with r(3) L show ?L by simp
  qed
qed

lemma ex_disj3:
  "((\<exists>m r. s = m @ r \<and> P m) \<or> (\<exists>m r. s = m @ r \<and> Q m \<and> B r) \<or>
    (\<exists>m r. s = m @ r \<and> R m)) \<longleftrightarrow>
   (\<exists>m r. s = m @ r \<and> (P m \<or> Q m \<and> B r \<or> R m))"
  by blast

lemma match_here_iff:
  "match_here s \<longleftrightarrow>
     (\<exists>m rest. s = m @ rest \<and>
        (ci_eq m ''{TestCaseID'' \<or>
         ci_eq m ''StepNo'' \<and> (rest = [] \<or> \<not> is_word_char (hd rest)) \<or>
         ci_eq m ''<StepNo''))"
proof -
  have a1: "(match_literal ''{TestCaseID'' s \<noteq> None) =
      (\<exists>m rest. s = m @ rest \<and> ci_eq m ''{TestCaseID'')"
    by (rule match_literal_matches)
  have a2: "(case match_literal ''StepNo'' s of
            None \<Rightarrow> False
          | Some (m, rest) \<Rightarrow> word_boundary (Some (last m)) (first_char rest)) =
      (\<exists>m rest. s = m @ rest \<and> ci_eq m ''StepNo'' \<and>
         (rest = [] \<or> \<not> is_word_char (hd rest)))"
    by (rule alt_boundary_iff) (rule ci_eq_StepNo_last)
  have a3: "(match_literal ''<StepNo'' s \<noteq> None) =
      (\<exists>m rest. s = m @ rest \<and> ci_eq m ''<StepNo'')"
    by (rule match_literal_matches)
  show ?thesis
    unfolding match_here_def a1 a2 a3 by (rule ex_disj3)
qed

lemma regex_test_iff:
  "regex_test s \<longleftrightarrow> (\<exists>pre suf. s = pre @ suf \<and> match_here suf)"
proof (induction s)
  case Nil
  then show ?case by simp
next
  case (Cons c cs)
  have "(\<exists>pre suf. c # cs = pre @ suf \<and> match_here suf) \<longleftrightarrow>
        (match_here (c # cs) \<or> (\<exists>pre suf. cs = pre @ suf \<and> match_here suf))"
    by (auto simp: Cons_eq_append_conv)
  with Cons show ?case by simp
qed

lemmas detect_eval =
  isTestCase_def match_here_def canonicalize_def word_boundary_def is_word_at_def
  first_char_def is_word_char_def

lemma detect_json: "isTestCase ''{TestCaseID: \"TC1\"}''"
  by (simp add: detect_eval)

lemma detect_step: "isTestCase ''StepNo: 1''"
  by (simp add: detect_eval)

lemma detect_xml: "isTestCase ''<StepNo>1</StepNo>''"
  by (simp add: detect_eval)

lemma detect_prose: "\<not> isTestCase ''Please check the payment log for errors''"
  by (simp add: detect_eval)

text \<open>
  Claim C7. The detection predicate holds exactly for the inputs that contain, up to
  the case of letters, the text \<open>{TestCaseID\<close>, or the text \<open>StepNo\<close> followed by a word
  boundary (the end of the input or a character that is no letter, digit or
  underscore), or the text \<open><StepNo\<close>. It does not depend on the case of the input. It
  holds for the three sample inputs and fails for a sentence of plain prose.
\<close>

theorem isTestCase_spec:
  "(isTestCase s \<longleftrightarrow>
      (\<exists>pre m post. s = pre @ m @ post \<and>
         (ci_eq m ''{TestCaseID'' \<or>
          ci_eq m ''StepNo'' \<and> (post = [] \<or> \<not> is_word_char (hd post)) \<or>
          ci_eq m ''<StepNo''))) \<and>
   isTestCase (map canonicalize s) = isTestCase s \<and>
   isTestCase ''{TestCaseID: \"TC1\"}'' \<and>
   isTestCase ''StepNo: 1'' \<and>
   isTestCase ''<StepNo>1</StepNo>'' \<and>
   \<not> isTestCase ''Please check the payment log for errors''"
proof (intro conjI)
  show "isTestCase s \<longleftrightarrow>
      (\<exists>pre m post. s = pre @ m @ post \<and>
         (ci_eq m ''{TestCaseID'' \<or>
          ci_eq m ''StepNo'' \<and> (post = [] \<or> \<not> is_word_char (hd post)) \<or>
          ci_eq m ''<StepNo''))"
    unfolding isTestCase_def regex_test_iff match_here_iff by blast
  show "isTestCase (map canonicalize s) = isTestCase s"
    unfolding isTestCase_def by (rule regex_test_canon)
qed (rule detect_json detect_step detect_xml detect_prose)+

section \<open>Properties of the Model Client\<close>


lemma failure_response_error: "error (failure_response e) = Some (error_message e)"
  by (simp add: failure_response_def)



text \<open>
  Claim C5, as the code has it. \<open>sendChatMessage\<close> never rejects: what its \<open>try\<close>
  block throws, it turns into a response that it resolves to, with a fixed apology
  as the reply and the message of the error in the \<open>error\<close> field. On a response
  whose status is not in the range 200 to 299 and whose body is read, that message is
  \<open>HTTP error! status: \<close> followed by the status; on a failure at the level of the
  network, of \<open>fetch\<close> or of reading the body of such a response, it is the message
  of that failure. \<open>callChatAPI\<close> of the page does fail: it throws the \<open>Error\<close> with
  the status, and rethrows the failure of the network. Each posts exactly one request.
\<close>

theorem sendChatMessage_failures:
  "(net (request_for req) = Fulfilled r \<and> \<not> ok r \<and> text_body r = Inr body \<longrightarrow>
      fst (sendChatMessage req net) = Inr (failure_response (http_error r)) \<and>
      error (failure_response (http_error r)) =
        Some (''HTTP error! status: '' @ string_of_nat (status r))) \<and>
   (net (request_for req) = Fulfilled r \<and> \<not> ok r \<and> text_body r = Inl e \<longrightarrow>
      fst (sendChatMessage req net) = Inr (failure_response e) \<and>
      error (failure_response e) = Some (error_message e)) \<and>
   (net (request_for req) = Rejected e \<longrightarrow>
      fst (sendChatMessage req net) = Inr (failure_response e) \<and>
      error (failure_response e) = Some (error_message e)) \<and>
   \<not> isl (fst (sendChatMessage req net)) \<and>
   snd (sendChatMessage req net) = [request_for req] \<and>
   (\<not> ok r \<longrightarrow>
      callChatAPI_result (Fulfilled r) =
        Inl (ErrorObj (''HTTP error! status: '' @ string_of_nat (status r)))) \<and>
   callChatAPI_result (Rejected e) = Inl e \<and>
   snd (callChatAPI msg epsLog testCase net) =
     [ollama_request (JStr (build_prompt msg epsLog testCase))]"
  by (simp add: sendChatMessage_def sendChatMessage_try_def Let_def failure_response_error
      http_error_def error_message_def callChatAPI_result_def callChatAPI_def
      split: sum.splits)

theorem sendChatMessage_failures_witness:
  "fst (sendChatMessage \<lparr>message = ''hello'', req_epsLogContent = None,
          req_testCaseContent = None\<rparr>
        (\<lambda>rq. Fulfilled \<lparr>status = 500, text_body = Inr ''Internal Server Error'',
                 json_body = Inl (ErrorObj ''Unexpected token I in JSON at position 0'')\<rparr>)) =
     Inr (failure_response (ErrorObj (''HTTP error! status: '' @ string_of_nat 500))) \<and>
   fst (sendChatMessage \<lparr>message = ''hello'', req_epsLogContent = None,
          req_testCaseContent = None\<rparr>
        (\<lambda>rq. Fulfilled \<lparr>status = 500, text_body = Inl (ErrorObj ''network error''),
                 json_body = Inl (ErrorObj ''network error'')\<rparr>)) =
     Inr (failure_response (ErrorObj ''network error'')) \<and>
   fst (sendChatMessage \<lparr>message = ''hello'', req_epsLogContent = None,
          req_testCaseContent = None\<rparr> (\<lambda>rq. Rejected (ErrorObj ''Failed to fetch''))) =
     Inr (failure_response (ErrorObj ''Failed to fetch'')) \<and>
   callChatAPI_result (Fulfilled \<lparr>status = 500, text_body = Inr ''Internal Server Error'',
                 json_body = Inl (ErrorObj ''Unexpected token I in JSON at position 0'')\<rparr>) =
     Inl (ErrorObj (''HTTP error! status: '' @ string_of_nat 500))"
  using
    sendChatMessage_failures [where net = "\<lambda>rq. Fulfilled \<lparr>status = 500, text_body = Inr ''Internal Server Error'',
                 json_body = Inl (ErrorObj ''Unexpected token I in JSON at position 0'')\<rparr>"
        and req = "\<lparr>message = ''hello'', req_epsLogContent = None, req_testCaseContent = None\<rparr>"
        and r = "\<lparr>status = 500, text_body = Inr ''Internal Server Error'',
                 json_body = Inl (ErrorObj ''Unexpected token I in JSON at position 0'')\<rparr>"
        and body = "''Internal Server Error''" and e = NonError
        and msg = "[]" and epsLog = None and testCase = None]
    sendChatMessage_failures [where net = "\<lambda>rq. Fulfilled \<lparr>status = 500, text_body = Inl (ErrorObj ''network error''),
                 json_body = Inl (ErrorObj ''network error'')\<rparr>"
        and req = "\<lparr>message = ''hello'', req_epsLogContent = None, req_testCaseContent = None\<rparr>"
        and r = "\<lparr>status = 500, text_body = Inl (ErrorObj ''network error''),
                 json_body = Inl (ErrorObj ''network error'')\<rparr>"
        and body = "[]" and e = "ErrorObj ''network error''"
        and msg = "[]" and epsLog = None and testCase = None]
    sendChatMessage_failures [where net = "\<lambda>rq. Rejected (ErrorObj ''Failed to fetch'')"
        and req = "\<lparr>message = ''hello'', req_epsLogContent = None, req_testCaseContent = None\<rparr>"
        and r = "\<lparr>status = 500, text_body = Inl NonError, json_body = Inl NonError\<rparr>"
        and body = "[]" and e = "ErrorObj ''Failed to fetch''"
        and msg = "[]" and epsLog = None and testCase = None]
  by (simp add: ok_def http_error_def)

text \<open>
  Claim C5 as stated fails for \<open>sendChatMessage\<close>. On a response with status 500 its
  promise does not reject: it resolves to a response whose reply is the apology that
  the function composes itself. On a response with status 503 whose body cannot be
  read, the error it reports is that of the read, and the status is not in it.
\<close>

theorem sendChatMessage_resolves_counterexample:
  "\<not> ok \<lparr>status = 500, text_body = Inr ''Internal Server Error'',
         json_body = Inl (ErrorObj ''Unexpected token I in JSON at position 0'')\<rparr> \<and>
   \<not> isl (fst (sendChatMessage \<lparr>message = ''hello'', req_epsLogContent = None,
          req_testCaseContent = None\<rparr>
        (\<lambda>rq. Fulfilled \<lparr>status = 500, text_body = Inr ''Internal Server Error'',
                 json_body = Inl (ErrorObj ''Unexpected token I in JSON at position 0'')\<rparr>))) \<and>
   fst (sendChatMessage \<lparr>message = ''hello'', req_epsLogContent = None,
          req_testCaseContent = None\<rparr>
        (\<lambda>rq. Fulfilled \<lparr>status = 500, text_body = Inr ''Internal Server Error'',
                 json_body = Inl (ErrorObj ''Unexpected token I in JSON at position 0'')\<rparr>)) =
     Inr \<lparr>reply = ''Sorry, I cannot connect to the local AI service. Please ensure Ollama is running on localhost:11434 and the model is loaded.'',
          error = Some ''HTTP error! status: 500''\<rparr> \<and>
   \<not> ok \<lparr>status = 503, text_body = Inl (ErrorObj ''network error''),
         json_body = Inl (ErrorObj ''network error'')\<rparr> \<and>
   fst (sendChatMessage \<lparr>message = ''hello'', req_epsLogContent = None,
          req_testCaseContent = None\<rparr>
        (\<lambda>rq. Fulfilled \<lparr>status = 503, text_body = Inl (ErrorObj ''network error''),
                 json_body = Inl (ErrorObj ''network error'')\<rparr>)) =
     Inr \<lparr>reply = ''Sorry, I cannot connect to the local AI service. Please ensure Ollama is running on localhost:11434 and the model is loaded.'',
          error = Some ''network error''\<rparr> \<and>
   \<not> sublist ''503'' ''network error''"
  by (simp add: ok_def sendChatMessage_def sendChatMessage_try_def Let_def failure_response_def
      error_message_def http_error_def sublist_code(3)
      string_of_nat.simps [of 500] string_of_nat.simps [of 50] string_of_nat.simps [of 5]
      digit_char_def)

text \<open>
  Claim C6, as the code has it. The reply is the first truthy value among
  \<open>message.content\<close> and \<open>content\<close> of the parsed body (and, in the route of the mock
  only, then \<open>choices[0].message.content\<close>), and the text \<open>No reply from model\<close> when
  none of them is truthy. On a response with a status from 200 to 299 whose body
  parses to a value other than \<open>null\<close>, \<open>sendChatMessage\<close> resolves to that reply, when
  it is a string, with no error; the route of the mock returns it with status 200. A
  body that does not parse is reported as a failure: the failure response of
  \<open>sendChatMessage\<close>, status 500 of the route.
\<close>

theorem reply_extraction:
  "extract_reply data =
     (if truthy (opt_get (opt_get data ''message'') ''content'')
      then opt_get (opt_get data ''message'') ''content''
      else if truthy (opt_get data ''content'') then opt_get data ''content''
      else JStr ''No reply from model'') \<and>
   extract_reply_mock data =
     (if truthy (opt_get (opt_get data ''message'') ''content'')
      then opt_get (opt_get data ''message'') ''content''
      else if truthy (opt_get data ''content'') then opt_get data ''content''
      else if truthy (opt_get (opt_get (opt_index0 (opt_get data ''choices'')) ''message'') ''content'')
      then opt_get (opt_get (opt_index0 (opt_get data ''choices'')) ''message'') ''content''
      else JStr ''No reply from model'') \<and>
   (net (request_for req) = Fulfilled r \<and> ok r \<and> json_body r = Inr data \<and>
    data \<noteq> JNull \<and> data \<noteq> Undefined \<and> extract_reply data = JStr s \<longrightarrow>
      fst (sendChatMessage req net) = Inr \<lparr>reply = s, error = None\<rparr>) \<and>
   (net (request_for req) = Fulfilled r \<and> ok r \<and> json_body r = Inl e \<longrightarrow>
      fst (sendChatMessage req net) = Inr (failure_response e)) \<and>
   (body \<noteq> JNull \<and> body \<noteq> Undefined \<and>
    net (ollama_request (opt_get body ''message'')) = Fulfilled r \<and> json_body r = Inr data \<longrightarrow>
      fst (POST (Inr body) net) =
        \<lparr>route_status = 200, route_body = JObj [(''reply'', extract_reply_mock data)]\<rparr>) \<and>
   (body \<noteq> JNull \<and> body \<noteq> Undefined \<and>
    net (ollama_request (opt_get body ''message'')) = Fulfilled r \<and> json_body r = Inl e \<longrightarrow>
      fst (POST (Inr body) net) = route_failure)"
  by (simp add: extract_reply_def extract_reply_mock_def js_or_def sendChatMessage_def
      sendChatMessage_try_def log_response_def POST_def Let_def)

theorem reply_extraction_witness:
  "fst (sendChatMessage \<lparr>message = ''hello'', req_epsLogContent = None, req_testCaseContent = None\<rparr>
     (\<lambda>rq. Fulfilled \<lparr>status = 200, text_body = Inr [],
        json_body = Inr (JObj [(''message'', JObj [(''content'', JStr [])]),
                                (''content'', JStr ''from content'')])\<rparr>)) =
     Inr \<lparr>reply = ''from content'', error = None\<rparr> \<and>
   fst (sendChatMessage \<lparr>message = ''hello'', req_epsLogContent = None, req_testCaseContent = None\<rparr>
     (\<lambda>rq. Fulfilled \<lparr>status = 200, text_body = Inr [],
        json_body = Inr (JObj [(''choices'',
          JArr [JObj [(''message'', JObj [(''content'', JStr ''from choices'')])]])])\<rparr>)) =
     Inr \<lparr>reply = ''No reply from model'', error = None\<rparr> \<and>
   fst (POST (Inr (JObj [(''message'', JStr ''hello'')]))
     (\<lambda>rq. Fulfilled \<lparr>status = 200, text_body = Inr [],
        json_body = Inr (JObj [(''choices'',
          JArr [JObj [(''message'', JObj [(''content'', JStr ''from choices'')])]])])\<rparr>)) =
     \<lparr>route_status = 200, route_body = JObj [(''reply'', JStr ''from choices'')]\<rparr>"
  using
    reply_extraction [where data = "JObj [(''message'', JObj [(''content'', JStr [])]),
                                (''content'', JStr ''from content'')]"
      and req = "\<lparr>message = ''hello'', req_epsLogContent = None, req_testCaseContent = None\<rparr>"
      and net = "\<lambda>rq. Fulfilled \<lparr>status = 200, text_body = Inr [],
        json_body = Inr (JObj [(''message'', JObj [(''content'', JStr [])]),
                                (''content'', JStr ''from content'')])\<rparr>"
      and r = "\<lparr>status = 200, text_body = Inr [],
        json_body = Inr (JObj [(''message'', JObj [(''content'', JStr [])]),
                                (''content'', JStr ''from content'')])\<rparr>"
      and s = "''from content''" and e = NonError and body = JNull]
    reply_extraction [where data = "JObj [(''choices'',
          JArr [JObj [(''message'', JObj [(''content'', JStr ''from choices'')])]])]"
      and req = "\<lparr>message = ''hello'', req_epsLogContent = None, req_testCaseContent = None\<rparr>"
      and net = "\<lambda>rq. Fulfilled \<lparr>status = 200, text_body = Inr [],
        json_body = Inr (JObj [(''choices'',
          JArr [JObj [(''message'', JObj [(''content'', JStr ''from choices'')])]])])\<rparr>"
      and r = "\<lparr>status = 200, text_body = Inr [],
        json_body = Inr (JObj [(''choices'',
          JArr [JObj [(''message'', JObj [(''content'', JStr ''from choices'')])]])])\<rparr>"
      and s = "''No reply from model''" and e = NonError
      and body = "JObj [(''message'', JStr ''hello'')]"]
  by (simp add: ok_def)

text \<open>
  Claim C6 as stated fails on a response with status 200 whose body is not JSON:
  none of the reply fields is present, and \<open>sendChatMessage\<close> resolves to its failure
  response, with the error of the parser, not to the text \<open>No reply from model\<close> as a
  reply without error; the route of the mock answers with status 500.
\<close>

theorem unparsable_body_counterexample:
  "ok \<lparr>status = 200, text_body = Inr ''<html>'',
       json_body = Inl (ErrorObj ''Unexpected token < in JSON at position 0'')\<rparr> \<and>
   fst (sendChatMessage \<lparr>message = ''hello'', req_epsLogContent = None, req_testCaseContent = None\<rparr>
     (\<lambda>rq. Fulfilled \<lparr>status = 200, text_body = Inr ''<html>'',
        json_body = Inl (ErrorObj ''Unexpected token < in JSON at position 0'')\<rparr>)) =
     Inr \<lparr>reply = ''Sorry, I cannot connect to the local AI service. Please ensure Ollama is running on localhost:11434 and the model is loaded.'',
          error = Some ''Unexpected token < in JSON at position 0''\<rparr> \<and>
   fst (sendChatMessage \<lparr>message = ''hello'', req_epsLogContent = None, req_testCaseContent = None\<rparr>
     (\<lambda>rq. Fulfilled \<lparr>status = 200, text_body = Inr ''<html>'',
        json_body = Inl (ErrorObj ''Unexpected token < in JSON at position 0'')\<rparr>)) \<noteq>
     Inr \<lparr>reply = ''No reply from model'', error = None\<rparr> \<and>
   fst (POST (Inr (JObj [(''message'', JStr ''hello'')]))
     (\<lambda>rq. Fulfilled \<lparr>status = 200, text_body = Inr ''<html>'',
        json_body = Inl (ErrorObj ''Unexpected token < in JSON at position 0'')\<rparr>)) =
     \<lparr>route_status = 500, route_body = JObj [(''error'', JStr ''Failed to connect to Ollama'')]\<rparr>"
  by (simp add: ok_def sendChatMessage_def sendChatMessage_try_def Let_def failure_response_def
      error_message_def POST_def route_failure_def)

text \<open>
  Two bodies that parse and still end in the failure response of \<open>sendChatMessage\<close>,
  through the log call that follows the extraction: the JSON value \<open>null\<close>, and a
  reply that is not a string. \<open>callChatAPI\<close> of the page has no such log call.
\<close>

lemma null_body_ends_in_failure:
  "fst (sendChatMessage req
     (\<lambda>rq. Fulfilled \<lparr>status = 200, text_body = Inr ''null'', json_body = Inr JNull\<rparr>)) =
     Inr (failure_response (ErrorObj ''Cannot read properties of null (reading 'error')'')) \<and>
   callChatAPI_result
     (Fulfilled \<lparr>status = 200, text_body = Inr ''null'', json_body = Inr JNull\<rparr>) =
     Inr (JStr ''No reply from model'')"
  by (simp add: sendChatMessage_def sendChatMessage_try_def Let_def ok_def extract_reply_def
      js_or_def log_response_def callChatAPI_result_def)

lemma number_reply_ends_in_failure:
  "fst (sendChatMessage req
     (\<lambda>rq. Fulfilled \<lparr>status = 200, text_body = Inr ''{\"content\": 5}'',
        json_body = Inr (JObj [(''content'', JNum 5)])\<rparr>)) =
     Inr (failure_response (ErrorObj ''reply.substring is not a function'')) \<and>
   callChatAPI_result
     (Fulfilled \<lparr>status = 200, text_body = Inr ''{\"content\": 5}'',
        json_body = Inr (JObj [(''content'', JNum 5)])\<rparr>) =
     Inr (JNum 5)"
  by (simp add: sendChatMessage_def sendChatMessage_try_def Let_def ok_def extract_reply_def
      js_or_def log_response_def callChatAPI_result_def)

section \<open>Properties of the Orchestrator\<close>

text \<open>
  Claim C3. While the busy flag is set, \<open>handleSendMessage\<close> returns at once, whatever
  the message: the session is unchanged, so the message list has the same length, no
  request is posted and no handler is suspended.
\<close>

theorem send_while_busy:
  "isLoading s \<Longrightarrow>
   handleSendMessage st1 st2 messageContent s = s \<and>
   handle (SendMessage messageContent st1 st2) s = s \<and>
   length (messages (handleSendMessage st1 st2 messageContent s)) = length (messages s) \<and>
   requests (handleSendMessage st1 st2 messageContent s) = requests s"
  by (simp add: handleSendMessage_def)

theorem send_while_busy_witness:
  "isLoading ((initial 0)\<lparr>isLoading := True\<rparr>) \<and>
   handleSendMessage (''m1'', 1) (''m2'', 1) ''hello'' ((initial 0)\<lparr>isLoading := True\<rparr>) =
     (initial 0)\<lparr>isLoading := True\<rparr>"
  using send_while_busy [of "(initial 0)\<lparr>isLoading := True\<rparr>" "(''m1'', 1)" "(''m2'', 1)" "''hello''"]
  by simp

text \<open>For comparison: a message sent while idle is appended and posted.\<close>

lemma send_when_idle:
  "\<not> isLoading s \<Longrightarrow> \<not> isTestCase m \<Longrightarrow>
   requests (handleSendMessage st1 st2 m s) = requests s @ [ollama_request (JStr m)] \<and>
   length (messages (handleSendMessage st1 st2 m s)) = Suc (length (messages s))"
  by (simp add: handleSendMessage_def post_request_def addMessage_def build_prompt_def)

lemma validation_failure_resume:
  "callChatAPI_result outcome = Inl e \<Longrightarrow>
   appState (processEpsValidation_resume task outcome st now1 now2 s) = TASKS_COMPLETED \<and>
   completedTasksCount (processEpsValidation_resume task outcome st now1 now2 s) = 1 \<and>
   isLoading (processEpsValidation_resume task outcome st now1 now2 s) = False \<and>
   tasks (processEpsValidation_resume task outcome st now1 now2 s) =
     map (complete_task (task_id task) (JStr (''Validation failed: '' @ error_message e)) now1)
       (tasks s)"
  by (simp add: processEpsValidation_resume_def addMessage_def)

lemma confirm_state:
  "pending (handleFileConfirmation new_id st data s) =
     pending s @ [AwaitValidation
       \<lparr>task_id = new_id, description = ''Validate test case against EPS log'',
        completed = False, justification = None, completedAt = None,
        task_epsLogContent = Some (epsLogContent data),
        task_testCaseContent = Some (testCaseContent data)\<rparr>] \<and>
   tasks (handleFileConfirmation new_id st data s) =
     [\<lparr>task_id = new_id, description = ''Validate test case against EPS log'',
       completed = False, justification = None, completedAt = None,
       task_epsLogContent = Some (epsLogContent data),
       task_testCaseContent = Some (testCaseContent data)\<rparr>] \<and>
   appState (handleFileConfirmation new_id st data s) = TASK_MODE \<and>
   completedTasksCount (handleFileConfirmation new_id st data s) = 0"
  by (simp add: handleFileConfirmation_def processEpsValidation_def post_request_def
      addMessage_def Let_def)

text \<open>
  A validation whose request fails, settling while the task list is the one task of
  that validation: the task is completed with the justification \<open>Validation failed: \<close>
  followed by the message of the error, the count of completed tasks is 1 and the
  mode is \<open>TASKS_COMPLETED\<close>.
\<close>

lemma sublist_validation_failed:
  "sublist ''Validation failed'' (''Validation failed: '' @ m)"
proof -
  have "''Validation failed: '' @ m = [] @ ''Validation failed'' @ ('': '' @ m)" by simp
  then show ?thesis unfolding sublist_def by blast
qed

lemma validation_failure_marks_task:
  assumes "callChatAPI_result outcome = Inl e" "tasks s = [t]" "task_id t = task_id task"
  shows "appState (processEpsValidation_resume task outcome st now1 now2 s) = TASKS_COMPLETED \<and>
         completedTasksCount (processEpsValidation_resume task outcome st now1 now2 s) = 1 \<and>
         tasks (processEpsValidation_resume task outcome st now1 now2 s) =
           [t\<lparr>completed := True,
              justification := Some (JStr (''Validation failed: '' @ error_message e)),
              completedAt := Some now1\<rparr>] \<and>
         sublist ''Validation failed'' (''Validation failed: '' @ error_message e)"
  using assms
  by (simp add: validation_failure_resume complete_task_def sublist_validation_failed)

text \<open>
  Claim C1 on a run in which two validations overlap. The form is opened from the
  sidebar and a first file is confirmed; while its request is outstanding the form is
  opened again and a second file is confirmed, which replaces the task list; then the
  first request settles. The handler finds no task with its identifier, and still
  sets the mode and the count: the mode is \<open>TASKS_COMPLETED\<close> while the only task is
  not completed and its validation is still in flight.
\<close>

theorem overlapping_validations_break_invariant:
  "\<exists>s. run (initial 0)
         [Navigate ''new-task'' (''n1'', 1),
          ConfirmFile
            \<lparr>pathToFile = ''checkout.log'', epsLogContent = ''log one'',
             testCaseContent = ''StepNo: 1'',
             tasksToBeDone = Some [''Validate test case against EPS log''], conf_timestamp = 1\<rparr>
            ''t1'' (''m1'', 2),
          Navigate ''new-task'' (''n2'', 3),
          ConfirmFile
            \<lparr>pathToFile = ''refund.log'', epsLogContent = ''log two'',
             testCaseContent = ''StepNo: 2'',
             tasksToBeDone = Some [''Validate test case against EPS log''], conf_timestamp = 3\<rparr>
            ''t2'' (''m2'', 4),
          Settled 0
            (Fulfilled \<lparr>status = 200, text_body = Inr [],
               json_body = Inr (JObj [(''message'',
                 JObj [(''content'', JStr ''Overall Result: PASS'')])])\<rparr>)
            (''m3'', 5) 5 5] = Some s \<and>
       appState s = TASKS_COMPLETED \<and>
       map task_id (tasks s) = [''t2''] \<and>
       map completed (tasks s) = [False] \<and>
       completedTasksCount s = 1 \<and>
       map task_id (validation_tasks (pending s)) = [''t2''] \<and>
       \<not> mode_invariant s"
  by (simp add: initial_def handleSidebarNavigation_def handleFileConfirmation_def
      processEpsValidation_def post_request_def addMessage_def processEpsValidation_resume_def
      complete_task_def callChatAPI_result_def ok_def extract_reply_def js_or_def
      mode_invariant_def Let_def)

text \<open>
  Claim C2 on the same run, with the first request rejected instead. The \<open>catch\<close>
  branch of the first validation sets the mode \<open>TASKS_COMPLETED\<close> and the count 1, and
  marks no task: the single task of the list is the second one, which stays not
  completed and without a justification.
\<close>

theorem overlapping_validation_failure_marks_no_task:
  "\<exists>s. run (initial 0)
         [Navigate ''new-task'' (''n1'', 1),
          ConfirmFile
            \<lparr>pathToFile = ''checkout.log'', epsLogContent = ''log one'',
             testCaseContent = ''StepNo: 1'',
             tasksToBeDone = Some [''Validate test case against EPS log''], conf_timestamp = 1\<rparr>
            ''t1'' (''m1'', 2),
          Navigate ''new-task'' (''n2'', 3),
          ConfirmFile
            \<lparr>pathToFile = ''refund.log'', epsLogContent = ''log two'',
             testCaseContent = ''StepNo: 2'',
             tasksToBeDone = Some [''Validate test case against EPS log''], conf_timestamp = 3\<rparr>
            ''t2'' (''m2'', 4),
          Settled 0 (Rejected (ErrorObj ''Failed to fetch'')) (''m3'', 5) 5 5] = Some s \<and>
       appState s = TASKS_COMPLETED \<and>
       completedTasksCount s = 1 \<and>
       map task_id (tasks s) = [''t2''] \<and>
       map completed (tasks s) = [False] \<and>
       map justification (tasks s) = [None]"
  by (simp add: initial_def handleSidebarNavigation_def handleFileConfirmation_def
      processEpsValidation_def post_request_def addMessage_def processEpsValidation_resume_def
      complete_task_def callChatAPI_result_def Let_def)

subsection \<open>Serial runs keep the invariant\<close>

text \<open>
  When no file is confirmed while a validation is in flight, every state that the
  handlers reach from the initial state satisfies the invariant of the data model.
\<close>

lemma validation_tasks_append:
  "validation_tasks (ks @ ks') = validation_tasks ks @ validation_tasks ks'"
  by (induction ks rule: validation_tasks.induct) simp_all

lemma validation_tasks_remove:
  assumes "i < length ks"
  shows "validation_tasks ks =
           validation_tasks (take i ks) @ validation_tasks [ks ! i] @
           validation_tasks (drop (Suc i) ks)"
proof -
  have "ks = take i ks @ [ks ! i] @ drop (Suc i) ks"
    using assms by (simp add: id_take_nth_drop)
  then have "validation_tasks ks = validation_tasks (take i ks @ [ks ! i] @ drop (Suc i) ks)"
    by simp
  then show ?thesis by (simp only: validation_tasks_append)
qed

lemma settle_chat_tasks:
  assumes "i < length ks" "ks ! i = AwaitChat"
  shows "validation_tasks (take i ks @ drop (Suc i) ks) = validation_tasks ks"
  using validation_tasks_remove [OF assms(1)] assms(2)
  by (simp add: validation_tasks_append)

lemma settle_validation_tasks:
  assumes "i < length ks" "ks ! i = AwaitValidation task" "validation_tasks ks = [task']"
  shows "task' = task \<and> validation_tasks (take i ks @ drop (Suc i) ks) = []"
proof -
  from validation_tasks_remove [OF assms(1)] assms(2,3)
  have "[task'] = validation_tasks (take i ks) @ task # validation_tasks (drop (Suc i) ks)"
    by simp
  then show ?thesis
    by (auto simp: validation_tasks_append Cons_eq_append_conv append_eq_Cons_conv)
qed

lemma settle_validation_none:
  assumes "i < length ks" "ks ! i = AwaitValidation task"
  shows "validation_tasks ks \<noteq> []"
  using validation_tasks_remove [OF assms(1)] assms(2) by simp

lemma serial_invariant_initial: "serial_invariant (initial now)"
  by (simp add: serial_invariant_def mode_invariant_def initial_def)

lemma addMessage_fields [simp]:
  "appState (addMessage st r c s) = appState s"
  "tasks (addMessage st r c s) = tasks s"
  "pending (addMessage st r c s) = pending s"
  by (simp_all add: addMessage_def)

lemma serial_invariant_cong:
  assumes "appState s' = appState s" "tasks s' = tasks s"
    "validation_tasks (pending s') = validation_tasks (pending s)"
  shows "serial_invariant s' = serial_invariant s"
  unfolding serial_invariant_def mode_invariant_def assms by (rule refl)

lemma serial_invariant_send:
  "serial_invariant (handleSendMessage st1 st2 m s) = serial_invariant s"
  by (rule serial_invariant_cong)
    (simp_all add: handleSendMessage_def post_request_def validation_tasks_append)

lemma serial_invariant_navigate:
  "serial_invariant (handleSidebarNavigation a st s) = serial_invariant s"
  by (rule serial_invariant_cong) (simp_all add: handleSidebarNavigation_def)

lemma serial_invariant_confirm:
  "validation_tasks (pending s) = [] \<Longrightarrow>
   serial_invariant (handleFileConfirmation new_id st data s)"
  by (simp add: serial_invariant_def mode_invariant_def handleFileConfirmation_def
      processEpsValidation_def post_request_def validation_tasks_append Let_def)

lemma serial_invariant_start:
  "serial_invariant s \<Longrightarrow> appState s = TASKS_COMPLETED \<Longrightarrow>
   serial_invariant (handleStartNewTask st now s)"
  by (auto simp: serial_invariant_def mode_invariant_def handleStartNewTask_def
      split: list.splits)

lemma serial_invariant_settle:
  assumes inv: "serial_invariant s" and i: "i < length (pending s)"
  shows "serial_invariant (handle (Settled i outcome st now1 now2) s)"
proof (cases "pending s ! i")
  case AwaitChat
  let ?s' = "s\<lparr>pending := take i (pending s) @ drop (Suc i) (pending s)\<rparr>"
  have "serial_invariant (handleSendMessage_resume outcome st ?s') = serial_invariant s"
    by (rule serial_invariant_cong)
      (simp_all add: handleSendMessage_resume_def settle_chat_tasks [OF i AwaitChat]
        split: sum.splits)
  with inv i AwaitChat show ?thesis by simp
next
  case (AwaitValidation task)
  let ?s' = "s\<lparr>pending := take i (pending s) @ drop (Suc i) (pending s)\<rparr>"
  from settle_validation_none [OF i AwaitValidation] inv
  obtain task' where one: "validation_tasks (pending s) = [task']" and
    st: "appState s = TASK_MODE" "tasks s = [task']"
    by (auto simp: serial_invariant_def split: list.splits)
  from settle_validation_tasks [OF i AwaitValidation one]
  have eq: "task' = task" and none: "validation_tasks (pending ?s') = []" by simp_all
  have "serial_invariant (processEpsValidation_resume task outcome st now1 now2 ?s')"
    using st eq none
    by (simp add: serial_invariant_def mode_invariant_def processEpsValidation_resume_def
        complete_task_def split: sum.splits)
  with i AwaitValidation show ?thesis by simp
qed

lemma serial_invariant_step:
  assumes "serial_invariant s" "enabled s e" "serial s (e # es)"
  shows "serial_invariant (handle e s)"
proof (cases e)
  case (SendMessage m st1 st2)
  with assms(1) show ?thesis by (simp add: serial_invariant_send)
next
  case (ConfirmFile data new_id st)
  with assms(3) show ?thesis by (simp add: serial_invariant_confirm)
next
  case (Navigate a st)
  with assms(1) show ?thesis by (simp add: serial_invariant_navigate)
next
  case (StartNewTask st now)
  with assms(1,2) show ?thesis by (simp add: serial_invariant_start)
next
  case CancelConfirmation
  have "serial_invariant (s\<lparr>showConfirmation := False\<rparr>) = serial_invariant s"
    by (rule serial_invariant_cong) simp_all
  with assms(1) CancelConfirmation show ?thesis by simp
next
  case TestCaseDetected
  have "serial_invariant (s\<lparr>showConfirmation := True\<rparr>) = serial_invariant s"
    by (rule serial_invariant_cong) simp_all
  with assms(1) TestCaseDetected show ?thesis by simp
next
  case (Settled i outcome st now1 now2)
  with assms(2) have "i < length (pending s)" by simp
  from serial_invariant_settle [OF assms(1) this] Settled show ?thesis by simp
qed

lemma serial_tail: "serial s (e # es) \<Longrightarrow> serial (handle e s) es"
  by (cases e) simp_all

lemma serial_run_invariant:
  "serial_invariant s \<Longrightarrow> serial s es \<Longrightarrow> run s es = Some s' \<Longrightarrow> serial_invariant s'"
proof (induction es arbitrary: s)
  case Nil
  then show ?case by simp
next
  case (Cons e es)
  from Cons.prems(3) have en: "enabled s e" and r: "run (handle e s) es = Some s'"
    by (simp_all split: if_splits)
  have "serial_invariant (handle e s)"
    by (rule serial_invariant_step [OF Cons.prems(1) en Cons.prems(2)])
  from Cons.IH [OF this serial_tail [OF Cons.prems(2)] r] show ?case .
qed

lemma serial_runs_keep_mode_invariant:
  "serial (initial now) es \<Longrightarrow> run (initial now) es = Some s \<Longrightarrow> mode_invariant s"
  using serial_run_invariant [OF serial_invariant_initial] 
  by (auto simp: serial_invariant_def)

text \<open>
  In a serial run a validation whose request fails always finds its task: the task is
  completed with the justification of the failure, the count is 1 and the mode is
  \<open>TASKS_COMPLETED\<close>.
\<close>

lemma serial_validation_failure_completes:
  assumes inv: "serial_invariant s" and i: "i < length (pending s)"
    and k: "pending s ! i = AwaitValidation task"
    and f: "callChatAPI_result outcome = Inl e"
  shows "appState (handle (Settled i outcome st now1 now2) s) = TASKS_COMPLETED \<and>
         completedTasksCount (handle (Settled i outcome st now1 now2) s) = 1 \<and>
         tasks (handle (Settled i outcome st now1 now2) s) =
           [task\<lparr>completed := True,
                 justification := Some (JStr (''Validation failed: '' @ error_message e)),
                 completedAt := Some now1\<rparr>] \<and>
         sublist ''Validation failed'' (''Validation failed: '' @ error_message e)"
proof -
  let ?s' = "s\<lparr>pending := take i (pending s) @ drop (Suc i) (pending s)\<rparr>"
  from settle_validation_none [OF i k] inv
  obtain task' where one: "validation_tasks (pending s) = [task']" and t: "tasks s = [task']"
    by (auto simp: serial_invariant_def split: list.splits)
  from settle_validation_tasks [OF i k one] have "task' = task" by simp
  with t have "tasks ?s' = [task]" by simp
  from validation_failure_marks_task [OF f this refl, of st now1 now2]
  show ?thesis using i k by simp
qed

end
